theory Spec2Isabelle
  imports Complex_Main
begin

section \<open>JavaScript numbers\<close>

text \<open>
  The TypeScript type \<open>number\<close> is an IEEE-754 double. The model keeps the three
  special values the code can observe (\<open>NaN\<close>, \<open>Infinity\<close>, \<open>-Infinity\<close>) with the
  IEEE rules for them, and represents every finite double by the real number it
  denotes. Arithmetic on finite values is exact: rounding to 53 bits, overflow of a
  finite result to an infinity and the sign of zero are not modelled.
\<close>

datatype jsnum = Fin real | PosInf | NegInf | NaN

text \<open>\<open>Number.isFinite\<close> on a value of type number.\<close>

fun isFinite :: "jsnum \<Rightarrow> bool" where
  "isFinite (Fin x) = True"
| "isFinite PosInf = False"
| "isFinite NegInf = False"
| "isFinite NaN = False"

text \<open>The comparisons \<open><=\<close>, \<open><\<close> and \<open>>=\<close>: every comparison with \<open>NaN\<close> is false.\<close>

fun js_le :: "jsnum \<Rightarrow> jsnum \<Rightarrow> bool" where
  "js_le NaN b = False"
| "js_le a NaN = False"
| "js_le NegInf b = True"
| "js_le a PosInf = True"
| "js_le PosInf b = False"
| "js_le a NegInf = False"
| "js_le (Fin x) (Fin y) = (x \<le> y)"

fun js_lt :: "jsnum \<Rightarrow> jsnum \<Rightarrow> bool" where
  "js_lt NaN b = False"
| "js_lt a NaN = False"
| "js_lt PosInf b = False"
| "js_lt a NegInf = False"
| "js_lt NegInf b = True"
| "js_lt a PosInf = True"
| "js_lt (Fin x) (Fin y) = (x < y)"

definition js_ge :: "jsnum \<Rightarrow> jsnum \<Rightarrow> bool" where
  "js_ge a b = js_le b a"

definition js_gt :: "jsnum \<Rightarrow> jsnum \<Rightarrow> bool" where
  "js_gt a b = js_lt b a"

text \<open>The binary operators \<open>+\<close>, \<open>-\<close>, \<open>*\<close>, \<open>/\<close> and \<open>%\<close>.\<close>

fun js_add :: "jsnum \<Rightarrow> jsnum \<Rightarrow> jsnum" where
  "js_add NaN b = NaN"
| "js_add a NaN = NaN"
| "js_add PosInf NegInf = NaN"
| "js_add NegInf PosInf = NaN"
| "js_add PosInf b = PosInf"
| "js_add NegInf b = NegInf"
| "js_add a PosInf = PosInf"
| "js_add a NegInf = NegInf"
| "js_add (Fin x) (Fin y) = Fin (x + y)"

fun js_neg :: "jsnum \<Rightarrow> jsnum" where
  "js_neg NaN = NaN"
| "js_neg PosInf = NegInf"
| "js_neg NegInf = PosInf"
| "js_neg (Fin x) = Fin (- x)"

definition js_sub :: "jsnum \<Rightarrow> jsnum \<Rightarrow> jsnum" where
  "js_sub a b = js_add a (js_neg b)"

text \<open>The sign of an infinite product or quotient; a zero counts as \<open>+0\<close>.\<close>

definition signed_inf :: "bool \<Rightarrow> jsnum" where
  "signed_inf negative = (if negative then NegInf else PosInf)"

fun js_mul :: "jsnum \<Rightarrow> jsnum \<Rightarrow> jsnum" where
  "js_mul NaN b = NaN"
| "js_mul a NaN = NaN"
| "js_mul PosInf PosInf = PosInf"
| "js_mul PosInf NegInf = NegInf"
| "js_mul NegInf PosInf = NegInf"
| "js_mul NegInf NegInf = PosInf"
| "js_mul PosInf (Fin y) = (if y = 0 then NaN else signed_inf (y < 0))"
| "js_mul NegInf (Fin y) = (if y = 0 then NaN else signed_inf (0 < y))"
| "js_mul (Fin x) PosInf = (if x = 0 then NaN else signed_inf (x < 0))"
| "js_mul (Fin x) NegInf = (if x = 0 then NaN else signed_inf (0 < x))"
| "js_mul (Fin x) (Fin y) = Fin (x * y)"

fun js_div :: "jsnum \<Rightarrow> jsnum \<Rightarrow> jsnum" where
  "js_div NaN b = NaN"
| "js_div a NaN = NaN"
| "js_div PosInf PosInf = NaN"
| "js_div PosInf NegInf = NaN"
| "js_div NegInf PosInf = NaN"
| "js_div NegInf NegInf = NaN"
| "js_div PosInf (Fin y) = signed_inf (y < 0)"
| "js_div NegInf (Fin y) = signed_inf (0 \<le> y)"
| "js_div (Fin x) PosInf = Fin 0"
| "js_div (Fin x) NegInf = Fin 0"
| "js_div (Fin x) (Fin y) =
     (if y = 0 then (if x = 0 then NaN else signed_inf (x < 0)) else Fin (x / y))"



text \<open>
  \<open>Math.max\<close> and \<open>Math.min\<close> of two arguments return \<open>NaN\<close> when either argument
  is \<open>NaN\<close>. \<open>Math.floor\<close>; \<open>Math.round\<close> rounds to the nearest integer, a tie towards
  \<open>+Infinity\<close>.
\<close>

fun Math_max :: "jsnum \<Rightarrow> jsnum \<Rightarrow> jsnum" where
  "Math_max NaN b = NaN"
| "Math_max a NaN = NaN"
| "Math_max PosInf b = PosInf"
| "Math_max a PosInf = PosInf"
| "Math_max NegInf b = b"
| "Math_max a NegInf = a"
| "Math_max (Fin x) (Fin y) = Fin (max x y)"

fun Math_min :: "jsnum \<Rightarrow> jsnum \<Rightarrow> jsnum" where
  "Math_min NaN b = NaN"
| "Math_min a NaN = NaN"
| "Math_min NegInf b = NegInf"
| "Math_min a NegInf = NegInf"
| "Math_min PosInf b = b"
| "Math_min a PosInf = a"
| "Math_min (Fin x) (Fin y) = Fin (min x y)"


fun Math_round :: "jsnum \<Rightarrow> jsnum" where
  "Math_round (Fin x) = Fin (of_int \<lfloor>x + 1 / 2\<rfloor>)"
| "Math_round a = a"

text \<open>A number is integral when it is finite and has no fractional part.\<close>

fun isInteger :: "jsnum \<Rightarrow> bool" where
  "isInteger (Fin x) = (of_int \<lfloor>x\<rfloor> = x)"
| "isInteger a = False"

section \<open>The weighted scoring engine\<close>

text \<open>
  \<open>clamp(n, min = 0, max = 100)\<close> is \<open>Math.max(min, Math.min(max, n))\<close>; the calls
  that leave the defaults out are written with them.
\<close>

definition clamp :: "jsnum \<Rightarrow> jsnum \<Rightarrow> jsnum \<Rightarrow> jsnum" where
  "clamp n lo hi = Math_max lo (Math_min hi n)"

datatype color = Green | Orange | Red

record breakdown =
  gapScore :: jsnum
  difficultyScore :: jsnum
  sprintBonus :: jsnum

record score =
  winability :: jsnum
  color :: color
  breakdown :: breakdown

text \<open>
  The local constants of \<open>computeWinability\<close>, in the order of the source, each as a
  function of the parameters it reads.
\<close>

definition gapScore_of :: "jsnum \<Rightarrow> jsnum" where
  "gapScore_of gapSec =
     clamp (js_sub (Fin 100) (js_mul (js_div gapSec (Fin 60)) (Fin 100))) (Fin 0) (Fin 100)"

definition distPenalty :: "jsnum \<Rightarrow> jsnum" where
  "distPenalty distanceM = clamp (js_mul (js_div distanceM (Fin 5000)) (Fin 60)) (Fin 0) (Fin 60)"

definition elevPenalty :: "jsnum \<Rightarrow> jsnum" where
  "elevPenalty elevationGainM =
     clamp (js_mul (js_div elevationGainM (Fin 200)) (Fin 40)) (Fin 0) (Fin 40)"

definition difficultyScore_of :: "jsnum \<Rightarrow> jsnum \<Rightarrow> jsnum" where
  "difficultyScore_of distanceM elevationGainM =
     clamp (js_sub (Fin 100) (js_add (distPenalty distanceM) (elevPenalty elevationGainM)))
       (Fin 0) (Fin 100)"

definition sprintBonus_of :: "jsnum \<Rightarrow> jsnum" where
  "sprintBonus_of distanceM =
     (if js_le distanceM (Fin 600) then Fin 10
      else if js_le distanceM (Fin 1200) then Fin 5 else Fin 0)"

text \<open>\<open>winability\<close> before rounding: the weights are 0.65, 0.25 and 0.1.\<close>

definition winability_of :: "jsnum \<Rightarrow> jsnum \<Rightarrow> jsnum \<Rightarrow> jsnum" where
  "winability_of gapSec distanceM elevationGainM =
     clamp
       (js_add
          (js_add (js_mul (gapScore_of gapSec) (Fin (65 / 100)))
             (js_mul (difficultyScore_of distanceM elevationGainM) (Fin (25 / 100))))
          (js_mul (sprintBonus_of distanceM) (Fin (1 / 10))))
       (Fin 0) (Fin 100)"

text \<open>The colour is read off the unrounded value.\<close>

definition color_of :: "jsnum \<Rightarrow> color" where
  "color_of w = (if js_ge w (Fin 70) then Green else if js_ge w (Fin 40) then Orange else Red)"

definition computeWinability :: "jsnum \<Rightarrow> jsnum \<Rightarrow> jsnum \<Rightarrow> score" where
  "computeWinability gapSec distanceM elevationGainM =
     \<lparr> winability = Math_round (winability_of gapSec distanceM elevationGainM),
       color = color_of (winability_of gapSec distanceM elevationGainM),
       breakdown =
         \<lparr> gapScore = Math_round (gapScore_of gapSec),
           difficultyScore = Math_round (difficultyScore_of distanceM elevationGainM),
           sprintBonus = sprintBonus_of distanceM \<rparr> \<rparr>"

section \<open>Strings\<close>









section \<open>Conversion of a string to a number\<close>














section \<open>Time parsing and formatting\<close>

text \<open>
  A value of type \<open>unknown\<close>. \<open>JObject\<close> stands for every value whose \<open>typeof\<close> is
  neither \<open>"number"\<close> nor \<open>"string"\<close> and that is not \<open>null\<close>, \<open>undefined\<close> or a boolean.
\<close>

datatype jsvalue = JUndefined | JNull | JBoolean bool | JNumber jsnum | JString string | JObject







section \<open>The token lifecycle manager\<close>

text \<open>
  \<open>getAccessTokenFromSupabase\<close> talks to three collaborators: the process environment,
  the table \<open>strava_tokens\<close> behind the Supabase client, and the token endpoint of the
  upstream platform behind \<open>fetch\<close>. The model passes them in as one record, returns
  the table as the call leaves it, and lists the requests the call made in order. The
  source awaits each request before it goes on, so every request of the list is
  complete before the call returns.
\<close>

text \<open>
  The columns an upsert writes, and a row of the table, which has \<open>created_at\<close> in
  addition.
\<close>

record token_fields =
  athlete_id :: int
  access_token :: string
  refresh_token :: string
  expires_at :: int
  scope :: "string option"

record token_row = token_fields +
  created_at :: int

text \<open>
  \<open>order("created_at", {ascending: false}).limit(1).maybeSingle()\<close>: the row with the
  greatest \<open>created_at\<close>, the earliest such row of the table on a tie; none when
  the table is empty.
\<close>

fun select_latest :: "token_row list \<Rightarrow> token_row option" where
  "select_latest [] = None"
| "select_latest (r # rs) =
     (case select_latest rs of
        None \<Rightarrow> Some r
      | Some best \<Rightarrow> if created_at best > created_at r then Some best else Some r)"

text \<open>
  \<open>upsert(fields, {onConflict: "athlete_id"})\<close>: a row with that \<open>athlete_id\<close> takes
  the new column values and keeps its \<open>created_at\<close>; when there is none, a row is
  added, with the time of the call as \<open>created_at\<close>.
\<close>

definition write_fields :: "token_fields \<Rightarrow> token_row \<Rightarrow> token_row" where
  "write_fields f r =
     r\<lparr> access_token := access_token f, refresh_token := refresh_token f,
        expires_at := expires_at f, scope := scope f \<rparr>"

definition upsert :: "token_fields \<Rightarrow> int \<Rightarrow> token_row list \<Rightarrow> token_row list" where
  "upsert f now rows =
     (if list_ex (\<lambda>r. athlete_id r = athlete_id f) rows
      then map (\<lambda>r. if athlete_id r = athlete_id f then write_fields f r else r) rows
      else rows @ [token_fields.extend f (token_row.fields now)])"

text \<open>
  The JSON body of a token response, and what \<open>fetch\<close> gives back: a rejected promise,
  or a response with its \<open>ok\<close> flag, its body as text, and its body as JSON (none
  when the body does not parse, in which case \<open>res.json()\<close> rejects).
\<close>

record refreshed =
  refreshed_access_token :: string
  refreshed_refresh_token :: string
  refreshed_expires_at :: int
  refreshed_scope :: "string option"

record response =
  ok :: bool
  body_text :: string
  body_json :: "refreshed option"

datatype fetch_result = FetchRejected | FetchResponse response

text \<open>The form fields of the refresh request; the grant type is \<open>refresh_token\<close>.\<close>

record refresh_request =
  client_id :: string
  client_secret :: string
  request_refresh_token :: string

record world =
  supabaseUrl :: "string option"
  serviceKey :: "string option"
  clientId :: "string option"
  clientSecret :: "string option"
  clock :: int
  strava_tokens :: "token_row list"
  select_fails :: bool
  upsert_fails :: bool
  token_endpoint :: "refresh_request \<Rightarrow> fetch_result"

text \<open>An environment variable is falsy when it is unset or empty.\<close>

definition missing :: "string option \<Rightarrow> bool" where
  "missing v = (case v of None \<Rightarrow> True | Some s \<Rightarrow> s = [])"

definition env_value :: "string option \<Rightarrow> string" where
  "env_value v = (case v of None \<Rightarrow> [] | Some s \<Rightarrow> s)"

datatype request =
    DbSelectLatest
  | HttpPostToken refresh_request
  | DbUpsert token_fields

text \<open>
  The value the call resolves to, \<open>{error}\<close> or \<open>{access_token}\<close>, or the rejection of
  its promise when \<open>fetch\<close> or \<open>res.json()\<close> rejects.
\<close>

datatype token_result = TokenError string | AccessToken string | Rejected

record outcome =
  result :: token_result
  table_after :: "token_row list"
  requests :: "request list"

text \<open>
  \<open>getAccessTokenFromSupabase\<close>. \<open>now\<close> is \<open>Math.floor(Date.now() / 1000)\<close>, read from
  the clock. The result of the upsert is awaited and not inspected: when the write
  fails the table is unchanged and the call still returns the new token.
\<close>

definition getAccessTokenFromSupabase :: "world \<Rightarrow> outcome" where
  "getAccessTokenFromSupabase w =
     (if missing (supabaseUrl w) \<or> missing (serviceKey w) then
        \<lparr> result = TokenError ''Missing Supabase env vars'',
          table_after = strava_tokens w, requests = [] \<rparr>
      else if missing (clientId w) \<or> missing (clientSecret w) then
        \<lparr> result = TokenError ''Missing Strava client env vars'',
          table_after = strava_tokens w, requests = [] \<rparr>
      else
        (case (if select_fails w then None else select_latest (strava_tokens w)) of
           None \<Rightarrow>
             \<lparr> result = TokenError ''No Strava tokens found in DB'',
               table_after = strava_tokens w, requests = [DbSelectLatest] \<rparr>
         | Some row \<Rightarrow>
             (let now = clock w in
              if expires_at row \<le> now + 60 then
                (let req = \<lparr> client_id = env_value (clientId w),
                               client_secret = env_value (clientSecret w),
                               request_refresh_token = refresh_token row \<rparr>
                 in case token_endpoint w req of
                      FetchRejected \<Rightarrow>
                        \<lparr> result = Rejected, table_after = strava_tokens w,
                          requests = [DbSelectLatest, HttpPostToken req] \<rparr>
                    | FetchResponse res \<Rightarrow>
                        if \<not> ok res then
                          \<lparr> result = TokenError (''Strava refresh_token failed: '' @ body_text res),
                            table_after = strava_tokens w,
                            requests = [DbSelectLatest, HttpPostToken req] \<rparr>
                        else
                          (case body_json res of
                             None \<Rightarrow>
                               \<lparr> result = Rejected, table_after = strava_tokens w,
                                 requests = [DbSelectLatest, HttpPostToken req] \<rparr>
                           | Some refreshed \<Rightarrow>
                               (let fields =
                                      \<lparr> athlete_id = athlete_id row,
                                        access_token = refreshed_access_token refreshed,
                                        refresh_token = refreshed_refresh_token refreshed,
                                        expires_at = refreshed_expires_at refreshed,
                                        scope = refreshed_scope refreshed \<rparr>
                                in \<lparr> result = AccessToken (refreshed_access_token refreshed),
                                     table_after =
                                       (if upsert_fails w then strava_tokens w
                                        else upsert fields now (strava_tokens w)),
                                     requests =
                                       [DbSelectLatest, HttpPostToken req, DbUpsert fields] \<rparr>)))
              else
                \<lparr> result = AccessToken (access_token row),
                  table_after = strava_tokens w, requests = [DbSelectLatest] \<rparr>)))"

subsection \<open>Example worlds\<close>

text \<open>
  One stored credential for athlete 42 and a clock at 5000 seconds; the token endpoint
  answers every request with the given response, either a grant of new tokens or a
  refusal with an error body.
\<close>

definition stored_row :: "int \<Rightarrow> token_row" where
  "stored_row expiry =
     \<lparr> athlete_id = 42, access_token = ''old-access'', refresh_token = ''old-refresh'',
       expires_at = expiry, scope = Some ''read'', created_at = 7 \<rparr>"

definition granted_body :: refreshed where
  "granted_body =
     \<lparr> refreshed_access_token = ''new-access'', refreshed_refresh_token = ''new-refresh'',
       refreshed_expires_at = 30000, refreshed_scope = None \<rparr>"

definition granted :: response where
  "granted = \<lparr> ok = True, body_text = ''{}'', body_json = Some granted_body \<rparr>"

definition denied :: response where
  "denied = \<lparr> ok = False, body_text = ''Bad Request'', body_json = None \<rparr>"

definition example_world :: "int \<Rightarrow> response \<Rightarrow> world" where
  "example_world expiry res =
     \<lparr> supabaseUrl = Some ''https://db.example'', serviceKey = Some ''service-key'',
       clientId = Some ''1234'', clientSecret = Some ''secret'',
       clock = 5000, strava_tokens = [stored_row expiry],
       select_fails = False, upsert_fails = False,
       token_endpoint = (\<lambda>req. FetchResponse res) \<rparr>"

section \<open>Properties of the weighted scoring engine\<close>

subsection \<open>The components on each kind of input\<close>

lemma clamp_Fin: "clamp (Fin x) (Fin lo) (Fin hi) = Fin (max lo (min hi x))"
  by (simp add: clamp_def)

lemma clamp_PosInf: "clamp PosInf (Fin lo) (Fin hi) = Fin (max lo hi)"
  by (simp add: clamp_def)

lemma clamp_NegInf: "clamp NegInf (Fin lo) (Fin hi) = Fin lo"
  by (simp add: clamp_def)

lemma clamp_NaN: "clamp NaN (Fin lo) (Fin hi) = NaN"
  by (simp add: clamp_def)

lemmas clamp_simps = clamp_Fin clamp_PosInf clamp_NegInf clamp_NaN

lemma gapScore_of_simps:
  "gapScore_of (Fin g) = Fin (max 0 (min 100 (100 - g / 60 * 100)))"
  "gapScore_of PosInf = Fin 0"
  "gapScore_of NegInf = Fin 100"
  "gapScore_of NaN = NaN"
  by (simp_all add: gapScore_of_def js_sub_def signed_inf_def clamp_simps)

lemma distPenalty_simps:
  "distPenalty (Fin d) = Fin (max 0 (min 60 (d / 5000 * 60)))"
  "distPenalty PosInf = Fin 60"
  "distPenalty NegInf = Fin 0"
  "distPenalty NaN = NaN"
  by (simp_all add: distPenalty_def signed_inf_def clamp_simps)

lemma elevPenalty_simps:
  "elevPenalty (Fin d) = Fin (max 0 (min 40 (d / 200 * 40)))"
  "elevPenalty PosInf = Fin 40"
  "elevPenalty NegInf = Fin 0"
  "elevPenalty NaN = NaN"
  by (simp_all add: elevPenalty_def signed_inf_def clamp_simps)

lemma gapScore_range: "g \<noteq> NaN \<Longrightarrow> \<exists>x. gapScore_of g = Fin x \<and> 0 \<le> x \<and> x \<le> 100"
  by (cases g) (simp_all add: gapScore_of_simps)

lemma distPenalty_range: "d \<noteq> NaN \<Longrightarrow> \<exists>x. distPenalty d = Fin x \<and> 0 \<le> x \<and> x \<le> 60"
  by (cases d) (simp_all add: distPenalty_simps)

lemma elevPenalty_range: "e \<noteq> NaN \<Longrightarrow> \<exists>x. elevPenalty e = Fin x \<and> 0 \<le> x \<and> x \<le> 40"
  by (cases e) (simp_all add: elevPenalty_simps)

lemma difficultyScore_Fin:
  "distPenalty d = Fin p \<Longrightarrow> elevPenalty e = Fin q \<Longrightarrow>
   difficultyScore_of d e = Fin (max 0 (min 100 (100 - (p + q))))"
  by (simp add: difficultyScore_of_def js_sub_def clamp_simps)

lemma difficultyScore_range:
  "d \<noteq> NaN \<Longrightarrow> e \<noteq> NaN \<Longrightarrow> \<exists>x. difficultyScore_of d e = Fin x \<and> 0 \<le> x \<and> x \<le> 100"
  using distPenalty_range [of d] elevPenalty_range [of e]
  by (auto simp: difficultyScore_Fin)

lemma sprintBonus_range: "\<exists>x. sprintBonus_of d = Fin x \<and> 0 \<le> x \<and> x \<le> 10"
  by (simp add: sprintBonus_of_def)

lemma winability_of_Fin:
  "gapScore_of g = Fin x \<Longrightarrow> difficultyScore_of d e = Fin y \<Longrightarrow> sprintBonus_of d = Fin z \<Longrightarrow>
   winability_of g d e = Fin (max 0 (min 100 (x * (65 / 100) + y * (25 / 100) + z * (1 / 10))))"
  by (simp add: winability_of_def clamp_simps)

lemma gapScore_mono:
  "js_le a b \<Longrightarrow> \<exists>x y. gapScore_of a = Fin x \<and> gapScore_of b = Fin y \<and> y \<le> x"
  by (cases a; cases b) (auto simp: gapScore_of_simps)

lemma distPenalty_mono:
  "js_le a b \<Longrightarrow> \<exists>x y. distPenalty a = Fin x \<and> distPenalty b = Fin y \<and> x \<le> y"
  by (cases a; cases b) (auto simp: distPenalty_simps)

lemma elevPenalty_mono:
  "js_le a b \<Longrightarrow> \<exists>x y. elevPenalty a = Fin x \<and> elevPenalty b = Fin y \<and> x \<le> y"
  by (cases a; cases b) (auto simp: elevPenalty_simps)

lemma sprintBonus_mono:
  "js_le a b \<Longrightarrow> \<exists>x y. sprintBonus_of a = Fin x \<and> sprintBonus_of b = Fin y \<and> y \<le> x"
  by (cases a; cases b) (auto simp: sprintBonus_of_def)

lemma wsum_mono:
  fixes x x' y y' z z' :: real
  assumes "x' \<le> x" "y' \<le> y" "z' \<le> z"
  shows "max 0 (min 100 (x' * (65 / 100) + y' * (25 / 100) + z' * (1 / 10)))
       \<le> max 0 (min 100 (x * (65 / 100) + y * (25 / 100) + z * (1 / 10)))"
  using assms by auto

lemma score_Fin:
  "gapScore_of g = Fin x \<Longrightarrow> difficultyScore_of d e = Fin y \<Longrightarrow> sprintBonus_of d = Fin z \<Longrightarrow>
   winability (computeWinability g d e) =
     Fin (of_int \<lfloor>max 0 (min 100 (x * (65 / 100) + y * (25 / 100) + z * (1 / 10))) + 1 / 2\<rfloor>)"
  by (simp add: computeWinability_def winability_of_Fin)

lemma score_NaN_gap: "winability (computeWinability NaN d e) = NaN"
  by (cases "difficultyScore_of d e")
     (simp_all add: computeWinability_def winability_of_def gapScore_of_simps clamp_def)

lemma difficultyScore_NaN:
  "d = NaN \<or> e = NaN \<Longrightarrow> difficultyScore_of d e = NaN"
  by (cases "distPenalty d"; cases "elevPenalty e")
     (auto simp: difficultyScore_of_def distPenalty_simps elevPenalty_simps js_sub_def clamp_def)

lemma score_NaN_difficulty:
  "d = NaN \<or> e = NaN \<Longrightarrow> winability (computeWinability g d e) = NaN"
  using sprintBonus_range [of d]
  by (cases "gapScore_of g")
     (auto simp: computeWinability_def winability_of_def difficultyScore_NaN clamp_def signed_inf_def)

lemma floor_half_mono: "(a::real) \<le> b \<Longrightarrow> (of_int \<lfloor>a + 1 / 2\<rfloor> :: real) \<le> of_int \<lfloor>b + 1 / 2\<rfloor>"
  by (simp add: floor_mono)

lemma score_mono_gap:
  assumes "js_le g1 g2" "d \<noteq> NaN" "e \<noteq> NaN"
  shows "js_le (winability (computeWinability g2 d e)) (winability (computeWinability g1 d e))"
proof -
  obtain x1 x2 where g: "gapScore_of g1 = Fin x1" "gapScore_of g2 = Fin x2" "x2 \<le> x1"
    using gapScore_mono [OF assms(1)] by blast
  obtain y where y: "difficultyScore_of d e = Fin y"
    using difficultyScore_range [OF assms(2,3)] by blast
  obtain z where z: "sprintBonus_of d = Fin z"
    using sprintBonus_range [of d] by blast
  have "max 0 (min 100 (x2 * (65 / 100) + y * (25 / 100) + z * (1 / 10)))
      \<le> max 0 (min 100 (x1 * (65 / 100) + y * (25 / 100) + z * (1 / 10)))"
    using g(3) by (intro wsum_mono) simp_all
  then show ?thesis
    unfolding score_Fin [OF g(1) y z] score_Fin [OF g(2) y z] js_le.simps
    by (rule floor_half_mono)
qed

lemma difficultyScore_mono:
  assumes "distPenalty d1 = Fin p1" "distPenalty d2 = Fin p2" "p1 \<le> p2"
    and "elevPenalty e1 = Fin q1" "elevPenalty e2 = Fin q2" "q1 \<le> q2"
  shows "\<exists>y1 y2. difficultyScore_of d1 e1 = Fin y1 \<and> difficultyScore_of d2 e2 = Fin y2 \<and> y2 \<le> y1"
  using assms by (auto simp: difficultyScore_Fin)

lemma score_mono_distance:
  assumes "js_le d1 d2" "g \<noteq> NaN" "e \<noteq> NaN"
  shows "js_le (winability (computeWinability g d2 e)) (winability (computeWinability g d1 e))"
proof -
  obtain x where x: "gapScore_of g = Fin x"
    using gapScore_range [OF assms(2)] by blast
  obtain p1 p2 where p: "distPenalty d1 = Fin p1" "distPenalty d2 = Fin p2" "p1 \<le> p2"
    using distPenalty_mono [OF assms(1)] by blast
  obtain q where q: "elevPenalty e = Fin q"
    using elevPenalty_range [OF assms(3)] by blast
  obtain y1 y2 where y: "difficultyScore_of d1 e = Fin y1" "difficultyScore_of d2 e = Fin y2" "y2 \<le> y1"
    using difficultyScore_mono [OF p q q] by blast
  obtain z1 z2 where z: "sprintBonus_of d1 = Fin z1" "sprintBonus_of d2 = Fin z2" "z2 \<le> z1"
    using sprintBonus_mono [OF assms(1)] by blast
  have "max 0 (min 100 (x * (65 / 100) + y2 * (25 / 100) + z2 * (1 / 10)))
      \<le> max 0 (min 100 (x * (65 / 100) + y1 * (25 / 100) + z1 * (1 / 10)))"
    using y(3) z(3) by (intro wsum_mono) simp_all
  then show ?thesis
    unfolding score_Fin [OF x y(1) z(1)] score_Fin [OF x y(2) z(2)] js_le.simps
    by (rule floor_half_mono)
qed

lemma score_mono_elevation:
  assumes "js_le e1 e2" "g \<noteq> NaN" "d \<noteq> NaN"
  shows "js_le (winability (computeWinability g d e2)) (winability (computeWinability g d e1))"
proof -
  obtain x where x: "gapScore_of g = Fin x"
    using gapScore_range [OF assms(2)] by blast
  obtain p where p: "distPenalty d = Fin p"
    using distPenalty_range [OF assms(3)] by blast
  obtain q1 q2 where q: "elevPenalty e1 = Fin q1" "elevPenalty e2 = Fin q2" "q1 \<le> q2"
    using elevPenalty_mono [OF assms(1)] by blast
  obtain y1 y2 where y: "difficultyScore_of d e1 = Fin y1" "difficultyScore_of d e2 = Fin y2" "y2 \<le> y1"
    using difficultyScore_mono [OF p p _ q] by auto
  obtain z where z: "sprintBonus_of d = Fin z"
    using sprintBonus_range [of d] by blast
  have "max 0 (min 100 (x * (65 / 100) + y2 * (25 / 100) + z * (1 / 10)))
      \<le> max 0 (min 100 (x * (65 / 100) + y1 * (25 / 100) + z * (1 / 10)))"
    using y(3) by (intro wsum_mono) simp_all
  then show ?thesis
    unfolding score_Fin [OF x y(1) z] score_Fin [OF x y(2) z] js_le.simps
    by (rule floor_half_mono)
qed

lemma js_le_not_lt: "js_le a b \<Longrightarrow> \<not> js_lt b a"
  by (cases a; cases b) auto

subsection \<open>The claims about the scoring engine\<close>

text \<open>
  C1 (amended). At \<open>distanceMeters = 500\<close>, \<open>gapSeconds = 0\<close>, \<open>elevationGainMeters = 0\<close>
  the distance penalty is \<open>500 / 5000 * 60 = 6\<close>, so \<open>computeWinability\<close> returns
  \<open>gapScore = 100\<close>, \<open>difficultyScore = 94\<close>, \<open>sprintBonus = 10\<close>, the weighted sum
  \<open>65 + 23.5 + 1 = 89.5\<close> rounded to \<open>score = 90\<close>, and the colour green.
\<close>

theorem computeWinability_500_0_0:
  "computeWinability (Fin 0) (Fin 500) (Fin 0) =
     \<lparr> winability = Fin 90, color = Green,
       breakdown = \<lparr> gapScore = Fin 100, difficultyScore = Fin 94, sprintBonus = Fin 10 \<rparr> \<rparr>"
  by (simp add: computeWinability_def winability_of_def color_of_def difficultyScore_of_def
      sprintBonus_of_def gapScore_of_simps distPenalty_simps elevPenalty_simps clamp_simps
      js_sub_def js_ge_def)

text \<open>
  The values the specification gives for that input (\<open>difficultyScore = 100\<close> and
  \<open>score = 100\<close>) are not the ones the function returns.
\<close>

theorem computeWinability_500_0_0_not_all_100:
  "\<not> (gapScore (breakdown (computeWinability (Fin 0) (Fin 500) (Fin 0))) = Fin 100
      \<and> difficultyScore (breakdown (computeWinability (Fin 0) (Fin 500) (Fin 0))) = Fin 100
      \<and> sprintBonus (breakdown (computeWinability (Fin 0) (Fin 500) (Fin 0))) = Fin 10
      \<and> winability (computeWinability (Fin 0) (Fin 500) (Fin 0)) = Fin 100
      \<and> color (computeWinability (Fin 0) (Fin 500) (Fin 0)) = Green)"
  by (simp add: computeWinability_def winability_of_def color_of_def difficultyScore_of_def
      sprintBonus_of_def gapScore_of_simps distPenalty_simps elevPenalty_simps clamp_simps
      js_sub_def js_ge_def)

text \<open>
  C6. For every \<open>gapSeconds \<le> 0\<close> (\<open>-Infinity\<close> included) the gap score is exactly 100,
  and for every \<open>gapSeconds \<ge> 60\<close> (\<open>Infinity\<close> included) it is exactly 0; the same holds
  of the rounded \<open>gapScore\<close> of the returned breakdown.
\<close>

theorem gapScore_saturates:
  "(js_le g (Fin 0) \<longrightarrow>
      gapScore_of g = Fin 100 \<and> gapScore (breakdown (computeWinability g d e)) = Fin 100)
   \<and> (js_ge g (Fin 60) \<longrightarrow>
      gapScore_of g = Fin 0 \<and> gapScore (breakdown (computeWinability g d e)) = Fin 0)"
  by (cases g) (simp_all add: computeWinability_def gapScore_of_simps js_ge_def)

theorem gapScore_saturates_witness:
  "js_le (Fin (- 5)) (Fin 0) \<and> gapScore_of (Fin (- 5)) = Fin 100
   \<and> gapScore (breakdown (computeWinability (Fin (- 5)) (Fin 500) (Fin 0))) = Fin 100
   \<and> js_le NegInf (Fin 0) \<and> gapScore_of NegInf = Fin 100
   \<and> js_ge (Fin 75) (Fin 60) \<and> gapScore_of (Fin 75) = Fin 0
   \<and> gapScore (breakdown (computeWinability (Fin 75) (Fin 500) (Fin 0))) = Fin 0"
  using gapScore_saturates [of "Fin (- 5)" "Fin 500" "Fin 0"]
    gapScore_saturates [of NegInf "Fin 500" "Fin 0"]
    gapScore_saturates [of "Fin 75" "Fin 500" "Fin 0"]
  by (simp add: js_ge_def)

text \<open>
  C7. The score is non-increasing in each argument separately. With the other two
  arguments fixed, a larger gap, a larger distance or a larger elevation gain never
  gives a larger score; and when the fixed arguments are not \<open>NaN\<close> (so that the score
  is a number) the score at the larger argument is at most the score at the smaller.
\<close>

theorem score_monotone:
  "(js_le ga gb \<longrightarrow>
      \<not> js_gt (winability (computeWinability gb d e)) (winability (computeWinability ga d e))
      \<and> (d \<noteq> NaN \<and> e \<noteq> NaN \<longrightarrow>
           js_le (winability (computeWinability gb d e)) (winability (computeWinability ga d e))))
   \<and> (js_le da db \<longrightarrow>
      \<not> js_gt (winability (computeWinability g db e)) (winability (computeWinability g da e))
      \<and> (g \<noteq> NaN \<and> e \<noteq> NaN \<longrightarrow>
           js_le (winability (computeWinability g db e)) (winability (computeWinability g da e))))
   \<and> (js_le ea eb \<longrightarrow>
      \<not> js_gt (winability (computeWinability g d eb)) (winability (computeWinability g d ea))
      \<and> (g \<noteq> NaN \<and> d \<noteq> NaN \<longrightarrow>
           js_le (winability (computeWinability g d eb)) (winability (computeWinability g d ea))))"
proof (intro conjI impI)
  assume le: "js_le ga gb"
  show "\<not> js_gt (winability (computeWinability gb d e)) (winability (computeWinability ga d e))"
  proof (cases "d = NaN \<or> e = NaN")
    case True
    then show ?thesis by (simp add: score_NaN_difficulty js_gt_def)
  next
    case False
    then show ?thesis
      using score_mono_gap [OF le, of d e] by (simp add: js_le_not_lt js_gt_def)
  qed
next
  assume "js_le ga gb" "d \<noteq> NaN \<and> e \<noteq> NaN"
  then show "js_le (winability (computeWinability gb d e)) (winability (computeWinability ga d e))"
    by (simp add: score_mono_gap)
next
  assume le: "js_le da db"
  show "\<not> js_gt (winability (computeWinability g db e)) (winability (computeWinability g da e))"
  proof (cases "g = NaN")
    case True
    then show ?thesis by (simp add: score_NaN_gap js_gt_def)
  next
    case g: False
    show ?thesis
    proof (cases "e = NaN")
      case True
      then show ?thesis by (simp add: score_NaN_difficulty js_gt_def)
    next
      case False
      with g show ?thesis
        using score_mono_distance [OF le, of g e] by (simp add: js_le_not_lt js_gt_def)
    qed
  qed
next
  assume "js_le da db" "g \<noteq> NaN \<and> e \<noteq> NaN"
  then show "js_le (winability (computeWinability g db e)) (winability (computeWinability g da e))"
    by (simp add: score_mono_distance)
next
  assume le: "js_le ea eb"
  show "\<not> js_gt (winability (computeWinability g d eb)) (winability (computeWinability g d ea))"
  proof (cases "g = NaN")
    case True
    then show ?thesis by (simp add: score_NaN_gap js_gt_def)
  next
    case g: False
    show ?thesis
    proof (cases "d = NaN")
      case True
      then show ?thesis by (simp add: score_NaN_difficulty js_gt_def)
    next
      case False
      with g show ?thesis
        using score_mono_elevation [OF le, of g d] by (simp add: js_le_not_lt js_gt_def)
    qed
  qed
next
  assume "js_le ea eb" "g \<noteq> NaN \<and> d \<noteq> NaN"
  then show "js_le (winability (computeWinability g d eb)) (winability (computeWinability g d ea))"
    by (simp add: score_mono_elevation)
qed

theorem score_monotone_witness:
  "js_le (Fin 10) (Fin 20)
   \<and> js_le (winability (computeWinability (Fin 20) (Fin 1000) (Fin 50)))
       (winability (computeWinability (Fin 10) (Fin 1000) (Fin 50)))
   \<and> js_le (Fin 1000) (Fin 1300)
   \<and> js_le (winability (computeWinability (Fin 10) (Fin 1300) (Fin 50)))
       (winability (computeWinability (Fin 10) (Fin 1000) (Fin 50)))
   \<and> js_le (Fin 50) (Fin 150)
   \<and> js_le (winability (computeWinability (Fin 10) (Fin 1000) (Fin 150)))
       (winability (computeWinability (Fin 10) (Fin 1000) (Fin 50)))"
  using score_monotone [where ga = "Fin 10" and gb = "Fin 20" and d = "Fin 1000" and e = "Fin 50"
      and da = "Fin 1000" and db = "Fin 1300" and g = "Fin 10"
      and ea = "Fin 50" and eb = "Fin 150"]
  by simp

text \<open>
  C9 (amended). \<open>computeWinability\<close> is a total function with no loop and no \<open>throw\<close>.
  For every input triple in which no argument is \<open>NaN\<close> (negative, huge and infinite
  values included) the gap score and the difficulty score lie in \<open>[0, 100]\<close>, the
  distance penalty in \<open>[0, 60]\<close>, the elevation penalty in \<open>[0, 40]\<close>, and the returned
  score is an integer between 0 and 100.
\<close>

theorem score_clamped:
  assumes "g \<noteq> NaN" "d \<noteq> NaN" "e \<noteq> NaN"
  shows "js_le (Fin 0) (gapScore_of g) \<and> js_le (gapScore_of g) (Fin 100)
    \<and> js_le (Fin 0) (distPenalty d) \<and> js_le (distPenalty d) (Fin 60)
    \<and> js_le (Fin 0) (elevPenalty e) \<and> js_le (elevPenalty e) (Fin 40)
    \<and> js_le (Fin 0) (difficultyScore_of d e) \<and> js_le (difficultyScore_of d e) (Fin 100)
    \<and> isInteger (winability (computeWinability g d e))
    \<and> js_le (Fin 0) (winability (computeWinability g d e))
    \<and> js_le (winability (computeWinability g d e)) (Fin 100)"
proof -
  obtain x where x: "gapScore_of g = Fin x" "0 \<le> x" "x \<le> 100"
    using gapScore_range [OF assms(1)] by blast
  obtain p where p: "distPenalty d = Fin p" "0 \<le> p" "p \<le> 60"
    using distPenalty_range [OF assms(2)] by blast
  obtain q where q: "elevPenalty e = Fin q" "0 \<le> q" "q \<le> 40"
    using elevPenalty_range [OF assms(3)] by blast
  obtain y where y: "difficultyScore_of d e = Fin y" "0 \<le> y" "y \<le> 100"
    using difficultyScore_range [OF assms(2,3)] by blast
  obtain z where z: "sprintBonus_of d = Fin z"
    using sprintBonus_range [of d] by blast
  define w where "w = max 0 (min 100 (x * (65 / 100) + y * (25 / 100) + z * (1 / 10)))"
  have w: "0 \<le> w" "w \<le> 100" by (simp_all add: w_def)
  have s: "winability (computeWinability g d e) = Fin (of_int \<lfloor>w + 1 / 2\<rfloor>)"
    unfolding w_def by (rule score_Fin [OF x(1) y(1) z])
  have lo: "0 \<le> \<lfloor>w + 1 / 2\<rfloor>" using w(1) by simp
  have "\<lfloor>w + 1 / 2\<rfloor> \<le> \<lfloor>100 + 1 / 2 :: real\<rfloor>" using w(2) by (intro floor_mono) simp
  then have hi: "\<lfloor>w + 1 / 2\<rfloor> \<le> 100" by simp
  show ?thesis
    using x p q y lo hi by (simp add: s)
qed

theorem score_clamped_witness:
  "Fin 1000000000 \<noteq> NaN \<and> Fin (- 5) \<noteq> NaN \<and> PosInf \<noteq> NaN
   \<and> js_le (Fin 0) (gapScore_of (Fin 1000000000))
   \<and> js_le (gapScore_of (Fin 1000000000)) (Fin 100)
   \<and> js_le (Fin 0) (distPenalty (Fin (- 5))) \<and> js_le (distPenalty (Fin (- 5))) (Fin 60)
   \<and> js_le (Fin 0) (elevPenalty PosInf) \<and> js_le (elevPenalty PosInf) (Fin 40)
   \<and> js_le (Fin 0) (difficultyScore_of (Fin (- 5)) PosInf)
   \<and> js_le (difficultyScore_of (Fin (- 5)) PosInf) (Fin 100)
   \<and> isInteger (winability (computeWinability (Fin 1000000000) (Fin (- 5)) PosInf))
   \<and> js_le (Fin 0) (winability (computeWinability (Fin 1000000000) (Fin (- 5)) PosInf))
   \<and> js_le (winability (computeWinability (Fin 1000000000) (Fin (- 5)) PosInf)) (Fin 100)"
proof -
  have a: "Fin 1000000000 \<noteq> NaN" and b: "Fin (- 5) \<noteq> NaN" and c: "PosInf \<noteq> NaN"
    by simp_all
  show ?thesis
    using a b c score_clamped [OF a b c] by simp
qed

text \<open>
  A \<open>NaN\<close> argument is not clamped: \<open>Math.min\<close> and \<open>Math.max\<close> return \<open>NaN\<close>, so the
  gap score and the returned score are \<open>NaN\<close>, which is neither an integer nor within
  0 and 100.
\<close>

theorem score_NaN_unclamped:
  "gapScore_of NaN = NaN
   \<and> winability (computeWinability NaN (Fin 500) (Fin 0)) = NaN
   \<and> \<not> isInteger (winability (computeWinability NaN (Fin 500) (Fin 0)))
   \<and> \<not> js_le (Fin 0) (winability (computeWinability NaN (Fin 500) (Fin 0)))
   \<and> \<not> js_le (winability (computeWinability NaN (Fin 500) (Fin 0))) (Fin 100)"
  by (simp add: score_NaN_gap gapScore_of_simps)

text \<open>
  C10. For every finite input triple the rounded score is at most 91, the value of
  \<open>100 * 0.65 + 100 * 0.25 + 10 * 0.1\<close>; in particular it is never 100.
\<close>

theorem score_at_most_91:
  assumes "isFinite g" "isFinite d" "isFinite e"
  shows "js_le (winability (computeWinability g d e)) (Fin 91)
       \<and> winability (computeWinability g d e) \<noteq> Fin 100"
proof -
  have n: "g \<noteq> NaN" "d \<noteq> NaN" "e \<noteq> NaN" using assms by auto
  obtain x where x: "gapScore_of g = Fin x" "x \<le> 100"
    using gapScore_range [OF n(1)] by blast
  obtain y where y: "difficultyScore_of d e = Fin y" "y \<le> 100"
    using difficultyScore_range [OF n(2,3)] by blast
  obtain z where z: "sprintBonus_of d = Fin z" "z \<le> 10"
    using sprintBonus_range [of d] by blast
  define w where "w = max 0 (min 100 (x * (65 / 100) + y * (25 / 100) + z * (1 / 10)))"
  have s: "winability (computeWinability g d e) = Fin (of_int \<lfloor>w + 1 / 2\<rfloor>)"
    unfolding w_def by (rule score_Fin [OF x(1) y(1) z(1)])
  have "w \<le> 91"
    using x(2) y(2) z(2) by (auto simp: w_def)
  then have "\<lfloor>w + 1 / 2\<rfloor> \<le> \<lfloor>91 + 1 / 2 :: real\<rfloor>"
    by (intro floor_mono) simp
  then have "\<lfloor>w + 1 / 2\<rfloor> \<le> 91"
    by simp
  then obtain k :: int where k: "\<lfloor>w + 1 / 2\<rfloor> = k" "k \<le> 91"
    by blast
  show ?thesis
    unfolding s k(1) using k(2) by simp
qed

theorem score_at_most_91_witness:
  "isFinite (Fin 0) \<and> js_le (winability (computeWinability (Fin 0) (Fin 0) (Fin 0))) (Fin 91)
   \<and> winability (computeWinability (Fin 0) (Fin 0) (Fin 0)) \<noteq> Fin 100
   \<and> winability (computeWinability (Fin 0) (Fin 0) (Fin 0)) = Fin 91"
proof -
  have f: "isFinite (Fin 0)" by simp
  have "winability (computeWinability (Fin 0) (Fin 0) (Fin 0)) = Fin 91"
    by (simp add: computeWinability_def winability_of_def difficultyScore_of_def
      sprintBonus_of_def gapScore_of_simps distPenalty_simps elevPenalty_simps clamp_simps
      js_sub_def)
  then show ?thesis using score_at_most_91 [OF f f f] by simp
qed

section \<open>Properties of time parsing and formatting\<close>

subsection \<open>Decimal rendering and the two layouts\<close>



























subsection \<open>Parsing\<close>





subsection \<open>The claims about parsing and formatting\<close>






section \<open>Properties of the token lifecycle manager\<close>

subsection \<open>The table\<close>

lemma select_latest_mem: "select_latest rows = Some r \<Longrightarrow> r \<in> set rows"
  by (induction rows arbitrary: r) (auto split: option.splits if_splits)

lemma select_latest_map:
  assumes "\<And>r. created_at (g r) = created_at r"
  shows "select_latest (map g rows) = map_option g (select_latest rows)"
  by (induction rows) (auto simp: assms split: option.splits)

lemma created_at_write_fields: "created_at (write_fields f r) = created_at r"
  by (simp add: write_fields_def)

lemma upsert_existing:
  assumes "r \<in> set rows" "athlete_id r = athlete_id f"
  shows "upsert f now rows = map (\<lambda>r. if athlete_id r = athlete_id f then write_fields f r else r) rows"
  using assms by (auto simp: upsert_def list_ex_iff)

lemma select_latest_upsert:
  assumes "select_latest rows = Some r" "athlete_id r = athlete_id f"
  shows "select_latest (upsert f now rows) = Some (write_fields f r)"
proof -
  have "r \<in> set rows" using assms(1) by (rule select_latest_mem)
  then have "upsert f now rows
      = map (\<lambda>r. if athlete_id r = athlete_id f then write_fields f r else r) rows"
    using assms(2) by (rule upsert_existing)
  then show ?thesis
    using assms by (simp add: select_latest_map created_at_write_fields)
qed

lemma upsert_others:
  "filter (\<lambda>r. athlete_id r \<noteq> athlete_id f) (upsert f now rows)
     = filter (\<lambda>r. athlete_id r \<noteq> athlete_id f) rows"
proof -
  have "filter (\<lambda>r. athlete_id r \<noteq> athlete_id f)
          (map (\<lambda>r. if athlete_id r = athlete_id f then write_fields f r else r) rows)
        = filter (\<lambda>r. athlete_id r \<noteq> athlete_id f) rows"
    by (induction rows) (auto simp: write_fields_def)
  then show ?thesis
    by (simp add: upsert_def token_fields.defs token_row.defs)
qed

lemma upsert_written:
  assumes "r \<in> set (upsert f now rows)" "athlete_id r = athlete_id f"
  shows "access_token r = access_token f \<and> refresh_token r = refresh_token f
       \<and> expires_at r = expires_at f \<and> scope r = scope f"
  using assms
  by (auto simp: upsert_def write_fields_def token_fields.defs token_row.defs list_ex_iff split: if_splits)

lemma example_world_simps:
  "supabaseUrl (example_world e res) = Some ''https://db.example''"
  "serviceKey (example_world e res) = Some ''service-key''"
  "clientId (example_world e res) = Some ''1234''"
  "clientSecret (example_world e res) = Some ''secret''"
  "clock (example_world e res) = 5000"
  "strava_tokens (example_world e res) = [stored_row e]"
  "select_fails (example_world e res) = False"
  "upsert_fails (example_world e res) = False"
  "token_endpoint (example_world e res) req = FetchResponse res"
  by (simp_all add: example_world_def)

lemma stored_row_simps:
  "athlete_id (stored_row e) = 42" "access_token (stored_row e) = ''old-access''"
  "refresh_token (stored_row e) = ''old-refresh''" "expires_at (stored_row e) = e"
  "scope (stored_row e) = Some ''read''" "created_at (stored_row e) = 7"
  by (simp_all add: stored_row_def)

subsection \<open>The claims about the token lifecycle manager\<close>

text \<open>
  C4. When the environment is complete and the latest stored credential expires later
  than \<open>now + 60\<close>, the call returns the stored access token; its only request is the
  read of the table: it posts nothing to the token endpoint, writes nothing, and leaves
  the table as it was.
\<close>

theorem fast_path:
  assumes "\<not> missing (supabaseUrl w)" "\<not> missing (serviceKey w)"
    and "\<not> missing (clientId w)" "\<not> missing (clientSecret w)"
    and "\<not> select_fails w" "select_latest (strava_tokens w) = Some row"
    and "clock w + 60 < expires_at row"
  shows "result (getAccessTokenFromSupabase w) = AccessToken (access_token row)
    \<and> requests (getAccessTokenFromSupabase w) = [DbSelectLatest]
    \<and> (\<forall>q. HttpPostToken q \<notin> set (requests (getAccessTokenFromSupabase w)))
    \<and> (\<forall>f. DbUpsert f \<notin> set (requests (getAccessTokenFromSupabase w)))
    \<and> table_after (getAccessTokenFromSupabase w) = strava_tokens w"
  using assms by (simp add: getAccessTokenFromSupabase_def Let_def)

theorem fast_path_witness:
  "\<not> missing (supabaseUrl (example_world 8600 denied))
   \<and> \<not> missing (serviceKey (example_world 8600 denied))
   \<and> \<not> missing (clientId (example_world 8600 denied))
   \<and> \<not> missing (clientSecret (example_world 8600 denied))
   \<and> \<not> select_fails (example_world 8600 denied)
   \<and> select_latest (strava_tokens (example_world 8600 denied)) = Some (stored_row 8600)
   \<and> clock (example_world 8600 denied) + 3600 = expires_at (stored_row 8600)
   \<and> clock (example_world 8600 denied) + 60 < expires_at (stored_row 8600)
   \<and> result (getAccessTokenFromSupabase (example_world 8600 denied)) = AccessToken ''old-access''
   \<and> requests (getAccessTokenFromSupabase (example_world 8600 denied)) = [DbSelectLatest]
   \<and> table_after (getAccessTokenFromSupabase (example_world 8600 denied)) = [stored_row 8600]"
proof -
  let ?w = "example_world 8600 denied"
  have e: "\<not> missing (supabaseUrl ?w)" "\<not> missing (serviceKey ?w)"
    "\<not> missing (clientId ?w)" "\<not> missing (clientSecret ?w)"
    by (simp_all add: example_world_simps missing_def)
  have s: "\<not> select_fails ?w" "select_latest (strava_tokens ?w) = Some (stored_row 8600)"
    by (simp_all add: example_world_simps)
  have x: "clock ?w + 60 < expires_at (stored_row 8600)"
    by (simp add: example_world_simps stored_row_simps)
  show ?thesis
    using e s x fast_path [OF e s x]
    by (simp add: stored_row_simps example_world_simps)
qed

text \<open>
  C2. When the latest stored credential expires at or before \<open>now + 60\<close> and the
  token endpoint answers the refresh request with a success response whose body is
  \<open>new\<close>, the call returns the access token of \<open>new\<close>. Before returning it posts the
  refresh request and then upserts, under the athlete id of the credential it read,
  the access token, refresh token, expiry and scope of \<open>new\<close>. When the table takes the
  write, the latest credential read from it afterwards is the old row with these new
  values, every row of that athlete carries them, and the rows of other athletes are
  unchanged.
\<close>

theorem refresh_success:
  assumes "\<not> missing (supabaseUrl w)" "\<not> missing (serviceKey w)"
    and "\<not> missing (clientId w)" "\<not> missing (clientSecret w)"
    and "\<not> select_fails w" "select_latest (strava_tokens w) = Some row"
    and "expires_at row \<le> clock w + 60"
    and "token_endpoint w
           \<lparr> client_id = env_value (clientId w), client_secret = env_value (clientSecret w),
             request_refresh_token = refresh_token row \<rparr> = FetchResponse res"
    and "ok res" "body_json res = Some new"
  shows "result (getAccessTokenFromSupabase w) = AccessToken (refreshed_access_token new)
    \<and> requests (getAccessTokenFromSupabase w) =
        [DbSelectLatest,
         HttpPostToken
           \<lparr> client_id = env_value (clientId w), client_secret = env_value (clientSecret w),
             request_refresh_token = refresh_token row \<rparr>,
         DbUpsert
           \<lparr> athlete_id = athlete_id row, access_token = refreshed_access_token new,
             refresh_token = refreshed_refresh_token new,
             expires_at = refreshed_expires_at new, scope = refreshed_scope new \<rparr>]
    \<and> (\<not> upsert_fails w \<longrightarrow>
         select_latest (table_after (getAccessTokenFromSupabase w)) =
           Some (row \<lparr> access_token := refreshed_access_token new,
                      refresh_token := refreshed_refresh_token new,
                      expires_at := refreshed_expires_at new,
                      scope := refreshed_scope new \<rparr>)
         \<and> (\<forall>r \<in> set (table_after (getAccessTokenFromSupabase w)).
               athlete_id r = athlete_id row \<longrightarrow>
                 access_token r = refreshed_access_token new
                 \<and> refresh_token r = refreshed_refresh_token new
                 \<and> expires_at r = refreshed_expires_at new)
         \<and> filter (\<lambda>r. athlete_id r \<noteq> athlete_id row) (table_after (getAccessTokenFromSupabase w))
             = filter (\<lambda>r. athlete_id r \<noteq> athlete_id row) (strava_tokens w))"
proof -
  define fields where "fields =
    \<lparr> athlete_id = athlete_id row, access_token = refreshed_access_token new,
      refresh_token = refreshed_refresh_token new,
      expires_at = refreshed_expires_at new, scope = refreshed_scope new \<rparr>"
  have out: "getAccessTokenFromSupabase w =
    \<lparr> result = AccessToken (refreshed_access_token new),
      table_after = (if upsert_fails w then strava_tokens w
                     else upsert fields (clock w) (strava_tokens w)),
      requests =
        [DbSelectLatest,
         HttpPostToken
           \<lparr> client_id = env_value (clientId w), client_secret = env_value (clientSecret w),
             request_refresh_token = refresh_token row \<rparr>,
         DbUpsert fields] \<rparr>"
    using assms by (simp add: getAccessTokenFromSupabase_def Let_def fields_def)
  have id: "athlete_id row = athlete_id fields"
    by (simp add: fields_def)
  have latest: "select_latest (upsert fields (clock w) (strava_tokens w)) = Some (write_fields fields row)"
    using assms(6) id by (rule select_latest_upsert)
  have written: "write_fields fields row =
      row \<lparr> access_token := refreshed_access_token new,
            refresh_token := refreshed_refresh_token new,
            expires_at := refreshed_expires_at new,
            scope := refreshed_scope new \<rparr>"
    by (simp add: write_fields_def fields_def)
  have each: "access_token r = refreshed_access_token new
        \<and> refresh_token r = refreshed_refresh_token new
        \<and> expires_at r = refreshed_expires_at new"
    if "r \<in> set (upsert fields (clock w) (strava_tokens w))" "athlete_id r = athlete_id row" for r
    using upsert_written [of r fields "clock w" "strava_tokens w"] that
    by (simp add: fields_def)
  have others: "filter (\<lambda>r. athlete_id r \<noteq> athlete_id row) (upsert fields (clock w) (strava_tokens w))
      = filter (\<lambda>r. athlete_id r \<noteq> athlete_id row) (strava_tokens w)"
    using upsert_others [of fields "clock w" "strava_tokens w"] by (simp add: fields_def)
  show ?thesis
    unfolding out using latest written each others
    by (simp add: fields_def)
qed

theorem refresh_success_witness:
  "\<not> missing (supabaseUrl (example_world 4999 granted))
   \<and> \<not> missing (serviceKey (example_world 4999 granted))
   \<and> \<not> missing (clientId (example_world 4999 granted))
   \<and> \<not> missing (clientSecret (example_world 4999 granted))
   \<and> \<not> select_fails (example_world 4999 granted)
   \<and> select_latest (strava_tokens (example_world 4999 granted)) = Some (stored_row 4999)
   \<and> expires_at (stored_row 4999) = clock (example_world 4999 granted) - 1
   \<and> expires_at (stored_row 4999) \<le> clock (example_world 4999 granted) + 60
   \<and> token_endpoint (example_world 4999 granted)
        \<lparr> client_id = ''1234'', client_secret = ''secret'',
          request_refresh_token = ''old-refresh'' \<rparr> = FetchResponse granted
   \<and> ok granted \<and> body_json granted = Some granted_body
   \<and> \<not> upsert_fails (example_world 4999 granted)
   \<and> result (getAccessTokenFromSupabase (example_world 4999 granted)) = AccessToken ''new-access''
   \<and> requests (getAccessTokenFromSupabase (example_world 4999 granted)) =
        [DbSelectLatest,
         HttpPostToken
           \<lparr> client_id = ''1234'', client_secret = ''secret'',
             request_refresh_token = ''old-refresh'' \<rparr>,
         DbUpsert
           \<lparr> athlete_id = 42, access_token = ''new-access'', refresh_token = ''new-refresh'',
             expires_at = 30000, scope = None \<rparr>]
   \<and> select_latest (table_after (getAccessTokenFromSupabase (example_world 4999 granted))) =
        Some \<lparr> athlete_id = 42, access_token = ''new-access'', refresh_token = ''new-refresh'',
               expires_at = 30000, scope = None, created_at = 7 \<rparr>"
proof -
  let ?w = "example_world 4999 granted"
  have e: "\<not> missing (supabaseUrl ?w)" "\<not> missing (serviceKey ?w)"
    "\<not> missing (clientId ?w)" "\<not> missing (clientSecret ?w)"
    by (simp_all add: example_world_simps missing_def)
  have s: "\<not> select_fails ?w" "select_latest (strava_tokens ?w) = Some (stored_row 4999)"
    by (simp_all add: example_world_simps)
  have x: "expires_at (stored_row 4999) \<le> clock ?w + 60"
    by (simp add: example_world_simps stored_row_simps)
  have t: "token_endpoint ?w
      \<lparr> client_id = env_value (clientId ?w), client_secret = env_value (clientSecret ?w),
        request_refresh_token = refresh_token (stored_row 4999) \<rparr> = FetchResponse granted"
    by (simp add: example_world_simps)
  have g: "ok granted" "body_json granted = Some granted_body"
    by (simp_all add: granted_def)
  have u: "\<not> upsert_fails ?w"
    by (simp add: example_world_simps)
  have b: "refreshed_access_token granted_body = ''new-access''"
    "refreshed_refresh_token granted_body = ''new-refresh''"
    "refreshed_expires_at granted_body = 30000" "refreshed_scope granted_body = None"
    by (simp_all add: granted_body_def)
  show ?thesis
    using e s x g u refresh_success [OF e s x t g]
    by (simp add: b example_world_simps stored_row_simps env_value_def stored_row_def)
qed

text \<open>
  C3. When the latest stored credential expires at or before \<open>now + 60\<close> and the
  token endpoint answers the refresh request with a response that is not a success,
  the call returns the error \<open>Strava refresh_token failed:\<close> followed by the body of
  that response; it issues no upsert and the table is unchanged.
\<close>

theorem refresh_denied:
  assumes "\<not> missing (supabaseUrl w)" "\<not> missing (serviceKey w)"
    and "\<not> missing (clientId w)" "\<not> missing (clientSecret w)"
    and "\<not> select_fails w" "select_latest (strava_tokens w) = Some row"
    and "expires_at row \<le> clock w + 60"
    and "token_endpoint w
           \<lparr> client_id = env_value (clientId w), client_secret = env_value (clientSecret w),
             request_refresh_token = refresh_token row \<rparr> = FetchResponse res"
    and "\<not> ok res"
  shows "result (getAccessTokenFromSupabase w)
        = TokenError (''Strava refresh_token failed: '' @ body_text res)
    \<and> requests (getAccessTokenFromSupabase w) =
        [DbSelectLatest,
         HttpPostToken
           \<lparr> client_id = env_value (clientId w), client_secret = env_value (clientSecret w),
             request_refresh_token = refresh_token row \<rparr>]
    \<and> (\<forall>f. DbUpsert f \<notin> set (requests (getAccessTokenFromSupabase w)))
    \<and> table_after (getAccessTokenFromSupabase w) = strava_tokens w"
  using assms by (simp add: getAccessTokenFromSupabase_def Let_def)

theorem refresh_denied_witness:
  "\<not> missing (supabaseUrl (example_world 4999 denied))
   \<and> \<not> missing (serviceKey (example_world 4999 denied))
   \<and> \<not> missing (clientId (example_world 4999 denied))
   \<and> \<not> missing (clientSecret (example_world 4999 denied))
   \<and> \<not> select_fails (example_world 4999 denied)
   \<and> select_latest (strava_tokens (example_world 4999 denied)) = Some (stored_row 4999)
   \<and> expires_at (stored_row 4999) = clock (example_world 4999 denied) - 1
   \<and> expires_at (stored_row 4999) \<le> clock (example_world 4999 denied) + 60
   \<and> token_endpoint (example_world 4999 denied)
        \<lparr> client_id = ''1234'', client_secret = ''secret'',
          request_refresh_token = ''old-refresh'' \<rparr> = FetchResponse denied
   \<and> \<not> ok denied
   \<and> result (getAccessTokenFromSupabase (example_world 4999 denied))
       = TokenError (''Strava refresh_token failed: '' @ body_text denied)
   \<and> requests (getAccessTokenFromSupabase (example_world 4999 denied)) =
        [DbSelectLatest,
         HttpPostToken
           \<lparr> client_id = ''1234'', client_secret = ''secret'',
             request_refresh_token = ''old-refresh'' \<rparr>]
   \<and> table_after (getAccessTokenFromSupabase (example_world 4999 denied)) = [stored_row 4999]"
proof -
  let ?w = "example_world 4999 denied"
  have e: "\<not> missing (supabaseUrl ?w)" "\<not> missing (serviceKey ?w)"
    "\<not> missing (clientId ?w)" "\<not> missing (clientSecret ?w)"
    by (simp_all add: example_world_simps missing_def)
  have s: "\<not> select_fails ?w" "select_latest (strava_tokens ?w) = Some (stored_row 4999)"
    by (simp_all add: example_world_simps)
  have x: "expires_at (stored_row 4999) \<le> clock ?w + 60"
    by (simp add: example_world_simps stored_row_simps)
  have t: "token_endpoint ?w
      \<lparr> client_id = env_value (clientId ?w), client_secret = env_value (clientSecret ?w),
        request_refresh_token = refresh_token (stored_row 4999) \<rparr> = FetchResponse denied"
    by (simp add: example_world_simps)
  have d: "\<not> ok denied"
    by (simp add: denied_def)
  show ?thesis
    using e s x d refresh_denied [OF e s x t d]
    by (simp add: example_world_simps stored_row_simps env_value_def)
qed

end
